theory Spec2Isabelle
  imports Complex_Main "HOL-Library.AList" "HOL-Library.Sublist"
begin

section \<open>The key/value store\<close>

text \<open>
  The orderbook lives in a Redis keyspace. One keyspace holds values of three kinds
  (strings, sets, sorted sets); a command applied to a key that holds a value of another
  kind fails with a WRONGTYPE reply and changes nothing. A set or sorted set that
  becomes empty disappears from the keyspace. Sets are kept as lists of their
  members; no result below depends on the order of such a list.
\<close>

datatype rvalue = RString string | RSet "string list" | RZSet "(string \<times> real) list"

type_synonym redis = "string \<rightharpoonup> rvalue"

datatype command =
    SADD string string
  | ZADD string real string
  | SET string string
  | SREM string string
  | ZREM string "string list"
  | DEL "string list"

definition WRONGTYPE :: string where
  "WRONGTYPE = ''ReplyError: WRONGTYPE Operation against a key holding the wrong kind of value''"

definition put_set :: "string \<Rightarrow> string list \<Rightarrow> redis \<Rightarrow> redis" where
  "put_set k xs db = (if xs = [] then db(k := None) else db(k \<mapsto> RSet xs))"

definition put_zset :: "string \<Rightarrow> (string \<times> real) list \<Rightarrow> redis \<Rightarrow> redis" where
  "put_zset k zs db = (if zs = [] then db(k := None) else db(k \<mapsto> RZSet zs))"

fun run_command :: "command \<Rightarrow> redis \<Rightarrow> string option \<times> redis" where
  "run_command (SADD k m) db =
     (case db k of
        None \<Rightarrow> (None, db(k \<mapsto> RSet [m]))
      | Some (RSet xs) \<Rightarrow> (None, db(k \<mapsto> RSet (List.insert m xs)))
      | Some _ \<Rightarrow> (Some WRONGTYPE, db))"
| "run_command (ZADD k sc m) db =
     (case db k of
        None \<Rightarrow> (None, db(k \<mapsto> RZSet [(m, sc)]))
      | Some (RZSet zs) \<Rightarrow> (None, db(k \<mapsto> RZSet (AList.update m sc zs)))
      | Some _ \<Rightarrow> (Some WRONGTYPE, db))"
| "run_command (SET k v) db = (None, db(k \<mapsto> RString v))"
| "run_command (SREM k m) db =
     (case db k of
        None \<Rightarrow> (None, db)
      | Some (RSet xs) \<Rightarrow> (None, put_set k (removeAll m xs) db)
      | Some _ \<Rightarrow> (Some WRONGTYPE, db))"
| "run_command (ZREM k ms) db =
     (case db k of
        None \<Rightarrow> (None, db)
      | Some (RZSet zs) \<Rightarrow> (None, put_zset k (filter (\<lambda>(m, sc). m \<notin> set ms) zs) db)
      | Some _ \<Rightarrow> (Some WRONGTYPE, db))"
| "run_command (DEL ks) db = (None, db |` (- set ks))"

text \<open>
  \<open>exec\<close> of a MULTI transaction: the queued commands run in order, each one giving its
  own error or none; a failing command does not undo or stop the others.
\<close>

fun exec :: "command list \<Rightarrow> redis \<Rightarrow> string option list \<times> redis" where
  "exec [] db = ([], db)"
| "exec (c # cs) db =
     (case run_command c db of (r, db1) \<Rightarrow>
        (case exec cs db1 of (rs, db2) \<Rightarrow> (r # rs, db2)))"

definition smembers :: "redis \<Rightarrow> string \<Rightarrow> string + string list" where
  "smembers db k =
     (case db k of
        None \<Rightarrow> Inr []
      | Some (RSet xs) \<Rightarrow> Inr xs
      | Some _ \<Rightarrow> Inl WRONGTYPE)"

definition sismember :: "redis \<Rightarrow> string \<Rightarrow> string \<Rightarrow> string + nat" where
  "sismember db k m =
     (case db k of
        None \<Rightarrow> Inr 0
      | Some (RSet xs) \<Rightarrow> Inr (if m \<in> set xs then 1 else 0)
      | Some _ \<Rightarrow> Inl WRONGTYPE)"

definition zscore :: "redis \<Rightarrow> string \<Rightarrow> string \<Rightarrow> real option" where
  "zscore db k m = (case db k of Some (RZSet zs) \<Rightarrow> map_of zs m | _ \<Rightarrow> None)"

definition get_string :: "redis \<Rightarrow> string \<Rightarrow> string option" where
  "get_string db k = (case db k of Some (RString v) \<Rightarrow> Some v | _ \<Rightarrow> None)"

section \<open>The logger\<close>

datatype level = Info | Error | Warn

type_synonym log_entry = "level \<times> string \<times> string"

section \<open>Orders\<close>

datatype Side = Buy | Sell

datatype OrderItem = TokenItem string string | CollectionItem string

record OrderParams =
  side :: Side
  complication :: string
  currency :: string
  startPriceEth :: real

text \<open>
  The class \<open>Order\<close> is imported from a module that is not part of the sources at hand.
  An order is taken as what the storage reads of it: its \<open>params\<close> and the result of
  \<open>getOrderItem()\<close>, which is either the item or a thrown error.
\<close>

record Order =
  params :: OrderParams
  getOrderItem :: "string + OrderItem"

record 'r OrderData =
  order_id :: string
  status :: string
  order :: 'r

section \<open>Orderbook storage\<close>

record OrderbookStorage =
  chainId :: string
  db :: redis
  logs :: "log_entry list"

definition version :: string where
  "version = ''v1''"

definition getOrderMatchesSet :: "OrderbookStorage \<Rightarrow> string \<Rightarrow> string" where
  "getOrderMatchesSet st orderId =
     ''orderbook:'' @ version @ '':chain:'' @ chainId st @ '':order-matches:'' @ orderId"

definition matchesByGasPriceOrderedSetKey :: "OrderbookStorage \<Rightarrow> string" where
  "matchesByGasPriceOrderedSetKey st =
     ''orderbook:'' @ version @ '':chain:'' @ chainId st @ '':order-matches:by-gas-price''"

definition getFullMatchKey :: "OrderbookStorage \<Rightarrow> string \<Rightarrow> string" where
  "getFullMatchKey st matchId =
     ''orderbook:'' @ version @ '':chain:'' @ chainId st @ '':order-matches:'' @ matchId @ '':full''"

definition storedOrdersSetKey :: "OrderbookStorage \<Rightarrow> string" where
  "storedOrdersSetKey st = ''orderbook:'' @ version @ '':chain:'' @ chainId st @ '':orders''"

definition activeOrdersOrderedSetKey :: "OrderbookStorage \<Rightarrow> string" where
  "activeOrdersOrderedSetKey st =
     ''orderbook:'' @ version @ '':chain:'' @ chainId st @ '':order-status:active''"

definition executedOrdersOrderedSetKey :: "OrderbookStorage \<Rightarrow> string" where
  "executedOrdersOrderedSetKey st =
     ''orderbook:'' @ version @ '':chain:'' @ chainId st @ '':order-status:executed''"

definition getFullOrderKey :: "OrderbookStorage \<Rightarrow> string \<Rightarrow> string" where
  "getFullOrderKey st ident =
     ''orderbook:'' @ version @ '':chain:'' @ chainId st @ '':orders:'' @ ident @ '':full''"

text \<open>
  The per-asset set names. Each function receives the constraints
  \<open>complication\<close>, \<open>currency\<close>, \<open>collection\<close> (and \<open>tokenId\<close>) in this order, as the
  fields of the source's argument object.
\<close>

definition getTokenListingsSet :: "string \<Rightarrow> string \<Rightarrow> string \<Rightarrow> string \<Rightarrow> string" where
  "getTokenListingsSet complication' currency' collection tokenId =
     ''scope:'' @ ''token-orders'' @ '':complication:'' @ complication' @ '':side:'' @ ''sell''
       @ '':collection:'' @ collection @ '':tokenId:'' @ tokenId"

definition getTokenOffersSet :: "string \<Rightarrow> string \<Rightarrow> string \<Rightarrow> string \<Rightarrow> string" where
  "getTokenOffersSet complication' currency' collection tokenId =
     ''scope:'' @ ''token-orders'' @ '':complication:'' @ complication' @ '':side:'' @ ''buy''
       @ '':collection:'' @ collection @ '':tokenId:'' @ tokenId"

definition getCollectionTokenListingsSet :: "string \<Rightarrow> string \<Rightarrow> string \<Rightarrow> string" where
  "getCollectionTokenListingsSet complication' currency' collection =
     ''scope:'' @ ''collection-token-orders'' @ '':complication:'' @ complication'
       @ '':side:'' @ ''sell'' @ '':collection:'' @ collection"

definition getCollectionTokenOffersSet :: "string \<Rightarrow> string \<Rightarrow> string \<Rightarrow> string \<Rightarrow> string" where
  "getCollectionTokenOffersSet complication' currency' collection tokenId =
     ''scope:'' @ ''collection-token-orders'' @ '':complication:'' @ complication'
       @ '':side:'' @ ''buy'' @ '':collection:'' @ collection"

definition getCollectionWideOffersSet :: "string \<Rightarrow> string \<Rightarrow> string \<Rightarrow> string" where
  "getCollectionWideOffersSet complication' currency' collection =
     ''scope:'' @ ''collection-wide-orders'' @ '':complication:'' @ complication'
       @ '':side:'' @ ''buy'' @ '':collection:'' @ collection"

definition has :: "OrderbookStorage \<Rightarrow> string \<Rightarrow> string + bool" where
  "has st orderId =
     (case sismember (db st) (storedOrdersSetKey st) orderId of
        Inl err \<Rightarrow> Inl err
      | Inr result \<Rightarrow> Inr (result = 1))"

text \<open>
  \<open>_getOrderItemSets\<close>: the switch on side and on whether the item has a \<open>tokenId\<close>.
  A thrown error is \<open>Inl\<close> of its rendering in a template string.
\<close>

definition getOrderItemSets :: "Order \<Rightarrow> string + (string list \<times> real)" where
  "getOrderItemSets ord =
     (case getOrderItem ord of
        Inl err \<Rightarrow> Inl err
      | Inr orderItem \<Rightarrow>
          (case (side (params ord), orderItem) of
             (Buy, TokenItem collection tokenId) \<Rightarrow>
               Inr ([getTokenOffersSet (complication (params ord)) (currency (params ord)) collection tokenId,
                     getCollectionTokenOffersSet (complication (params ord)) (currency (params ord)) collection tokenId],
                    startPriceEth (params ord))
           | (Buy, CollectionItem collection) \<Rightarrow>
               Inr ([getCollectionWideOffersSet (complication (params ord)) (currency (params ord)) collection],
                    startPriceEth (params ord))
           | (Sell, TokenItem collection tokenId) \<Rightarrow>
               Inr ([getTokenListingsSet (complication (params ord)) (currency (params ord)) collection tokenId,
                     getCollectionTokenListingsSet (complication (params ord)) (currency (params ord)) collection],
                    startPriceEth (params ord))
           | (Sell, CollectionItem collection) \<Rightarrow> Inl ''Error: Unsupported order side''))"

definition log_to :: "level \<Rightarrow> string \<Rightarrow> string \<Rightarrow> OrderbookStorage \<Rightarrow> OrderbookStorage" where
  "log_to lvl component message st = st\<lparr>logs := logs st @ [(lvl, component, message)]\<rparr>"

fun join :: "string \<Rightarrow> string list \<Rightarrow> string" where
  "join sep [] = []"
| "join sep [x] = x"
| "join sep (x # y # ys) = x @ sep @ join sep (y # ys)"

definition failed_event :: "'r OrderData \<Rightarrow> string \<Rightarrow> OrderbookStorage \<Rightarrow> OrderbookStorage" where
  "failed_event item err st =
     log_to Error ''orderbook-storage''
       (''Failed to save order event '' @ order_id item @ '' - '' @ status item @ '' '' @ err) st"

text \<open>
  The end of one iteration of \<open>save\<close>: \<open>txn.exec()\<close>, one error line per failed
  command, and the closing line.
\<close>

definition commit :: "'r OrderData \<Rightarrow> command list \<Rightarrow> OrderbookStorage \<Rightarrow> OrderbookStorage" where
  "commit item txn st =
     (case exec txn (db st) of (results, db') \<Rightarrow>
        log_to Info ''orderbook-storage'' (''Handled order '' @ order_id item)
          (fold (\<lambda>r s. case r of
                   None \<Rightarrow> s
                 | Some err \<Rightarrow>
                     log_to Error ''orderbook-storage''
                       (''Failed to save order '' @ order_id item @ '' - '' @ status item @ '' '' @ err) s)
             results (st\<lparr>db := db'\<rparr>)))"

text \<open>
  One iteration of the loop of \<open>save\<close>. \<open>newOrder ident chain raw\<close> stands for
  \<open>new Order(Order.getOrderParams(ident, chain, raw))\<close> and \<open>stringify\<close> for
  \<open>JSON.stringify\<close>; both come from outside the sources at hand.
\<close>

definition save_item ::
  "(string \<Rightarrow> string \<Rightarrow> 'r \<Rightarrow> string + Order) \<Rightarrow> ('r OrderData \<Rightarrow> string) \<Rightarrow>
   'r OrderData \<Rightarrow> OrderbookStorage \<Rightarrow> OrderbookStorage" where
  "save_item newOrder stringify item st =
     (case newOrder (order_id item) (chainId st) (order item) of
        Inl err \<Rightarrow> failed_event item err st
      | Inr ord \<Rightarrow>
          (case getOrderItemSets ord of
             Inl err \<Rightarrow> failed_event item err st
           | Inr (sets, orderScore) \<Rightarrow>
               (let fullOrder = stringify item in
                if status item = ''active'' then
                  commit item
                    ([SADD (storedOrdersSetKey st) (order_id item),
                      ZADD (activeOrdersOrderedSetKey st) (- 1) (order_id item),
                      SET (getFullOrderKey st (order_id item)) fullOrder]
                     @ map (\<lambda>set'. ZADD set' orderScore (order_id item)) sets)
                    (log_to Info ''orderbook-storage''
                       (''Adding order '' @ order_id item @ '' to active orders'') st)
                else
                  (let st1 = log_to Info ''orderbook-storage''
                               (''Removing order '' @ order_id item @ '' from active orders'') st;
                       txn = [SREM (storedOrdersSetKey st) (order_id item),
                              ZREM (activeOrdersOrderedSetKey st) [order_id item],
                              DEL [getFullOrderKey st (order_id item)]]
                             @ map (\<lambda>set'. ZREM set' [order_id item]) sets;
                       orderMatchesSet = getOrderMatchesSet st (order_id item)
                   in case smembers (db st) orderMatchesSet of
                        Inl err \<Rightarrow> failed_event item err st1
                      | Inr matches \<Rightarrow>
                          (if length matches > 0 then
                             commit item
                               (txn
                                @ [DEL (map (getFullMatchKey st) matches),
                                   ZREM (matchesByGasPriceOrderedSetKey st) matches]
                                @ map (\<lambda>match. SREM (getOrderMatchesSet st match) (order_id item)) matches
                                @ [DEL [orderMatchesSet]])
                               (log_to Info ''orderbook-storage''
                                  (''Removing matches: '' @ join '', \<newline>'' matches
                                     @ '' for order '' @ order_id item) st1)
                           else commit item (txn @ [DEL [orderMatchesSet]]) st1)))))"

definition save ::
  "(string \<Rightarrow> string \<Rightarrow> 'r \<Rightarrow> string + Order) \<Rightarrow> ('r OrderData \<Rightarrow> string) \<Rightarrow>
   'r OrderData list \<Rightarrow> OrderbookStorage \<Rightarrow> OrderbookStorage" where
  "save newOrder stringify items st = fold (save_item newOrder stringify) items st"

section \<open>The nonce provider\<close>

text \<open>
  The provider is asynchronous. A promise is pending, fulfilled or rejected; a call
  either returns, throws, or is suspended at an \<open>await\<close> on a pending promise.
  Thrown errors are given by their message.
\<close>

datatype 'a promise = Pending | Fulfilled 'a | Rejected string

datatype 'a outcome = Returned 'a | Threw string | Suspended

record NonceProviderDoc =
  doc_chainId :: string
  matchExecutorAddress :: string
  exchangeAddress :: string
  nonce :: string
  updatedAt :: int
  createdAt :: int

text \<open>
  The fields of the class, \<open>p_x\<close> for the member \<open>_x\<close>. \<open>p_ref\<close> is the content of
  the document the reference points to (\<open>None\<close> when it does not exist),
  \<open>p_signal\<close> is the abort signal of the lease (\<open>None\<close> while unset, otherwise its
  \<open>aborted\<close> flag), \<open>p_pendingSave\<close> tells whether the save timer is armed and
  \<open>p_close\<close> whether the closing callback is installed.
\<close>

record NonceProvider =
  p_chainId :: string
  p_accountAddress :: string
  p_exchangeAddress :: string
  p_saveDelay :: nat
  p_nonceLoaded :: "unit promise option"
  p_nonce :: "int option"
  p_ref :: "NonceProviderDoc option"
  p_signal :: "bool option"
  p_pendingSave :: bool
  p_close :: bool
  p_closed :: bool
  p_logs :: "log_entry list"

definition new_NonceProvider ::
  "string \<Rightarrow> string \<Rightarrow> string \<Rightarrow> NonceProviderDoc option \<Rightarrow> nat \<Rightarrow> NonceProvider" where
  "new_NonceProvider chain account exchange document saveDelay =
     \<lparr>p_chainId = chain, p_accountAddress = account, p_exchangeAddress = exchange,
      p_saveDelay = saveDelay, p_nonceLoaded = None, p_nonce = None, p_ref = document,
      p_signal = None, p_pendingSave = False, p_close = False, p_closed = False, p_logs = []\<rparr>"

definition np_log :: "level \<Rightarrow> string \<Rightarrow> NonceProvider \<Rightarrow> NonceProvider" where
  "np_log lvl message s = s\<lparr>p_logs := p_logs s @ [(lvl, ''nonce-provider'', message)]\<rparr>"

definition close :: "NonceProvider \<Rightarrow> NonceProvider" where
  "close s =
     (if p_close s \<and> \<not> p_closed s then
        (np_log Info (''Closing nonce provider for account: '' @ p_accountAddress s) s)\<lparr>p_closed := True\<rparr>
      else s)"

definition checkSignal :: "NonceProvider \<Rightarrow> string + unit" where
  "checkSignal s =
     (case p_signal s of
        None \<Rightarrow> Inl ''Nonce provider lock expired''
      | Some aborted \<Rightarrow>
          if aborted then Inl ''Nonce provider lock expired''
          else if p_closed s then Inl ''Nonce provider closed''
          else Inr ())"

text \<open>\<open>_saveNonce\<close> arms the save timer unless it is armed already.\<close>

definition saveNonce :: "NonceProvider \<Rightarrow> NonceProvider" where
  "saveNonce s = (if \<not> p_pendingSave s then s\<lparr>p_pendingSave := True\<rparr> else s)"

definition incrementNonce :: "NonceProvider \<Rightarrow> int outcome \<times> NonceProvider" where
  "incrementNonce s =
     (case p_nonce s of
        None \<Rightarrow> (Threw ''Nonce provider not running'', s)
      | Some n \<Rightarrow> (Returned (n + 1), saveNonce (s\<lparr>p_nonce := Some (n + 1)\<rparr>)))"

text \<open>
  \<open>getNonce\<close> on a state whose load promise is settled runs to its end; on a pending
  promise it is suspended, and \<open>getNonce_resume\<close> is its continuation, run on the
  state the provider has once the promise is settled.
\<close>

definition getNonce_resume :: "NonceProvider \<Rightarrow> int outcome \<times> NonceProvider" where
  "getNonce_resume s =
     (case p_nonceLoaded s of
        Some (Fulfilled u) \<Rightarrow> incrementNonce s
      | Some (Rejected err) \<Rightarrow> (Threw err, s)
      | _ \<Rightarrow> (Suspended, s))"

definition getNonce :: "NonceProvider \<Rightarrow> int outcome \<times> NonceProvider" where
  "getNonce s =
     (case checkSignal s of
        Inl err \<Rightarrow> (Threw err, s)
      | Inr u \<Rightarrow>
          (case p_nonceLoaded s of
             None \<Rightarrow> (Threw ''Nonce provider not running'', s)
           | Some p \<Rightarrow> getNonce_resume s))"

text \<open>
  \<open>_loadNonce\<close>. \<open>bn_from\<close> and \<open>bn_toString\<close> stand for \<open>BigNumber.from\<close> (which
  throws on a string that is no number) and \<open>BigNumber.toString\<close> of the ethers
  library, \<open>minNonce\<close> for the \<open>userMinOrderNonce\<close> of the exchange contract, and
  \<open>now_u\<close>, \<open>now_c\<close> for the two readings of the clock.
\<close>

definition loadNonce ::
  "(string \<Rightarrow> string + int) \<Rightarrow> (int \<Rightarrow> string) \<Rightarrow> int \<Rightarrow> int \<Rightarrow> int \<Rightarrow>
   NonceProvider \<Rightarrow> unit outcome \<times> NonceProvider" where
  "loadNonce bn_from bn_toString minNonce now_u now_c s =
     (case (case p_ref s of
              None \<Rightarrow>
                (let initial = \<lparr>doc_chainId = p_chainId s,
                                matchExecutorAddress = p_accountAddress s,
                                exchangeAddress = p_exchangeAddress s,
                                nonce = bn_toString minNonce,
                                updatedAt = now_u, createdAt = now_c\<rparr>
                 in (initial, s\<lparr>p_ref := Some initial\<rparr>))
            | Some d \<Rightarrow> (d, s)) of
        (data, s1) \<Rightarrow>
          (case bn_from (nonce data) of
             Inl err \<Rightarrow> (Threw err, s1)
           | Inr persisted \<Rightarrow>
               (Returned (),
                s1\<lparr>p_nonce := Some (if minNonce > persisted then minNonce else persisted)\<rparr>)))"

text \<open>
  \<open>run\<close>, by the events of the lease. \<open>run_lock_failed\<close>: the lock is held by another
  instance. \<open>run_acquired\<close>: the lock is acquired, the load is started and the signal
  stored. \<open>run_loaded\<close>: the load started by \<open>run_acquired\<close> ends. \<open>signal_abort\<close>:
  the lease library aborts the signal it handed out.
\<close>

definition run_lock_failed :: "NonceProvider \<Rightarrow> NonceProvider" where
  "run_lock_failed s =
     np_log Warn (''Failed to acquire lock, another instance is running for account: ''
                    @ p_accountAddress s @ '' exchange: '' @ p_exchangeAddress s) s"

definition run_acquired :: "NonceProvider \<Rightarrow> NonceProvider" where
  "run_acquired s =
     (np_log Info (''Acquired nonce lock for account: '' @ p_accountAddress s
                     @ '' exchange: '' @ p_exchangeAddress s) s)
       \<lparr>p_nonceLoaded := Some Pending, p_signal := Some False\<rparr>"

definition run_loaded ::
  "(string \<Rightarrow> string + int) \<Rightarrow> (int \<Rightarrow> string) \<Rightarrow> int \<Rightarrow> int \<Rightarrow> int \<Rightarrow>
   NonceProvider \<Rightarrow> NonceProvider" where
  "run_loaded bn_from bn_toString minNonce now_u now_c s =
     (case loadNonce bn_from bn_toString minNonce now_u now_c s of
        (Returned u, s1) \<Rightarrow> s1\<lparr>p_nonceLoaded := Some (Fulfilled ()), p_close := True\<rparr>
      | (Threw err, s1) \<Rightarrow> s1\<lparr>p_nonceLoaded := Some (Rejected err)\<rparr>
      | (Suspended, s1) \<Rightarrow> s1)"

definition signal_abort :: "NonceProvider \<Rightarrow> NonceProvider" where
  "signal_abort s = (case p_signal s of None \<Rightarrow> s | Some a \<Rightarrow> s\<lparr>p_signal := Some True\<rparr>)"

section \<open>The network configuration\<close>

datatype Wallet = Wallet string

datatype Provider = JsonRpcProvider string string | WebSocketProvider string string

datatype FlashbotsBundleProvider = FlashbotsBundleProvider Provider Wallet string

text \<open>
  The broadcasters. The module they come from is not part of the sources at hand;
  the two variants are those of the design: the direct one, built by the source as
  \<open>new ForkedNetworkBroadcaster(chainId, {wallet, provider})\<close>, and the one that
  submits bundles to a private relay with a block offset.
\<close>

datatype Broadcaster =
    ForkedNetworkBroadcaster string Wallet Provider
  | PrivateRelayBroadcaster string Wallet FlashbotsBundleProvider nat

record Flashbots =
  blockOffset :: nat
  provider :: FlashbotsBundleProvider

record NetworkConfig =
  nc_chainId :: string
  isForkingEnabled :: bool
  isFlashbotsEnabled :: bool
  initiator :: Wallet
  nc_matchExecutorAddress :: string
  nc_exchangeAddress :: string
  flashbots :: "Flashbots option"
  websocketProvider :: Provider
  httpProvider :: Provider
  broadcaster :: Broadcaster

definition getEnvVariable :: "(string \<rightharpoonup> string) \<Rightarrow> string \<Rightarrow> bool \<Rightarrow> string + string" where
  "getEnvVariable env key required =
     (case env key of
        Some v \<Rightarrow> Inr v
      | None \<Rightarrow>
          if required then Inl (''Missing required environment variable '' @ key)
          else Inr [])"

fun includes_str :: "string \<Rightarrow> string \<Rightarrow> bool" where
  "includes_str [] p = (p = [])"
| "includes_str (x # xs) p = (prefix p (x # xs) \<or> includes_str xs p)"

definition Mainnet :: string where
  "Mainnet = ''1''"

text \<open>
  \<open>getNetworkConfig\<close>. \<open>forking\<close> is the module constant \<open>isForkingEnabled\<close>,
  \<open>env\<close> the process environment, \<open>getExchangeAddress\<close> and \<open>defaultRelay\<close> the
  imported function and the imported constant \<open>DEFAULT_FLASHBOTS_RELAY\<close>, and
  \<open>balanceIsZero\<close> the answer of the node on the initiator's balance. The result is
  the configuration and the lines logged, or the thrown error. The numeric chain id
  given to the providers is kept as the string it is parsed from.
\<close>

definition getNetworkConfig ::
  "bool \<Rightarrow> (string \<rightharpoonup> string) \<Rightarrow> (string \<Rightarrow> string) \<Rightarrow> string \<Rightarrow> bool \<Rightarrow> string \<Rightarrow>
   string + (NetworkConfig \<times> log_entry list)" where
  "getNetworkConfig forking env getExchangeAddress defaultRelay balanceIsZero chain =
     (case getEnvVariable env ''WEBSOCKET_PROVIDER_URL'' True of Inl err \<Rightarrow> Inl err
      | Inr websocketUrl \<Rightarrow>
     (case getEnvVariable env ''HTTP_PROVIDER_URL'' True of Inl err \<Rightarrow> Inl err
      | Inr httpUrl \<Rightarrow>
     (case getEnvVariable env ''INITIATOR_KEY'' True of Inl err \<Rightarrow> Inl err
      | Inr initiatorKey \<Rightarrow>
     (case getEnvVariable env ''MATCH_EXECUTOR_ADDRESS'' True of Inl err \<Rightarrow> Inl err
      | Inr matchExecutorAddress' \<Rightarrow>
     (if forking then
        (if \<not> includes_str httpUrl ''127.0.0.1'' then
           Inl ''HTTP_PROVIDER_URL must be localhost to use forking''
         else
           Inr (\<lparr>nc_chainId = chain, isForkingEnabled = True, isFlashbotsEnabled = False,
                 initiator = Wallet initiatorKey,
                 nc_matchExecutorAddress = matchExecutorAddress',
                 nc_exchangeAddress = getExchangeAddress chain,
                 flashbots = None,
                 websocketProvider = WebSocketProvider websocketUrl chain,
                 httpProvider = JsonRpcProvider httpUrl chain,
                 broadcaster =
                   ForkedNetworkBroadcaster chain (Wallet initiatorKey) (JsonRpcProvider httpUrl chain)\<rparr>,
                (if balanceIsZero then
                   [(Error, ''config'', ''Initiator balance is 0, please fund the account'')]
                 else [])))
      else
        (case getEnvVariable env ''FLASHBOTS_AUTH_SIGNER_KEY'' True of Inl err \<Rightarrow> Inl err
         | Inr authSignerKey \<Rightarrow>
        (let relayUrl = (if chain = Mainnet then defaultRelay
                         else ''https://relay-goerli.flashbots.net/'');
             flashbotsProvider =
               FlashbotsBundleProvider (JsonRpcProvider httpUrl chain) (Wallet authSignerKey) relayUrl
         in Inr (\<lparr>nc_chainId = chain, isForkingEnabled = False, isFlashbotsEnabled = True,
                   initiator = Wallet initiatorKey,
                   nc_matchExecutorAddress = matchExecutorAddress',
                   nc_exchangeAddress = getExchangeAddress chain,
                   flashbots = Some \<lparr>blockOffset = 2, provider = flashbotsProvider\<rparr>,
                   websocketProvider = WebSocketProvider websocketUrl chain,
                   httpProvider = JsonRpcProvider httpUrl chain,
                   broadcaster =
                     ForkedNetworkBroadcaster chain (Wallet initiatorKey) (JsonRpcProvider httpUrl chain)\<rparr>,
                  []))))))))"

section \<open>The marketplace enablement table\<close>

datatype Builder = Seaport_Builders_SingleToken

record KindConfig =
  kind_enabled :: bool
  builder :: "Builder option"

record MarketplaceConfig =
  source :: string
  enabled :: bool
  kinds :: "(string \<times> KindConfig) list option"

definition infinityConfig :: "(string \<times> KindConfig) list" where
  "infinityConfig =
     [(''single-token'', \<lparr>kind_enabled = False, builder = None\<rparr>),
      (''contract-wide'', \<lparr>kind_enabled = False, builder = None\<rparr>),
      (''complex'', \<lparr>kind_enabled = False, builder = None\<rparr>)]"

definition seaportConfig :: "(string \<times> KindConfig) list" where
  "seaportConfig =
     [(''single-token'', \<lparr>kind_enabled = True, builder = Some Seaport_Builders_SingleToken\<rparr>),
      (''bundle-ask'', \<lparr>kind_enabled = False, builder = None\<rparr>),
      (''contract-wide'', \<lparr>kind_enabled = False, builder = None\<rparr>),
      (''token-list'', \<lparr>kind_enabled = False, builder = None\<rparr>)]"

definition config :: "(string \<times> MarketplaceConfig) list" where
  "config =
     [(''infinity'', \<lparr>source = ''infinity'', enabled = True, kinds = Some infinityConfig\<rparr>),
      (''seaport'', \<lparr>source = ''seaport'', enabled = True, kinds = Some seaportConfig\<rparr>),
      (''wyvern-v2'', \<lparr>source = ''wyvern-v2'', enabled = False, kinds = None\<rparr>),
      (''wyvern-v2.3'', \<lparr>source = ''wyvern-v2.3'', enabled = False, kinds = None\<rparr>),
      (''looks-rare'', \<lparr>source = ''looks-rare'', enabled = False, kinds = None\<rparr>),
      (''zeroex-v4-erc721'', \<lparr>source = ''zeroex-v4-erc721'', enabled = False, kinds = None\<rparr>),
      (''zeroex-v4-erc1155'', \<lparr>source = ''zeroex-v4-erc1155'', enabled = False, kinds = None\<rparr>),
      (''foundation'', \<lparr>source = ''foundation'', enabled = False, kinds = None\<rparr>),
      (''x2y2'', \<lparr>source = ''x2y2'', enabled = False, kinds = None\<rparr>),
      (''rarible'', \<lparr>source = ''rarible'', enabled = False, kinds = None\<rparr>),
      (''element-erc721'', \<lparr>source = ''element-erc721'', enabled = False, kinds = None\<rparr>),
      (''element-erc1155'', \<lparr>source = ''element-erc1155'', enabled = False, kinds = None\<rparr>),
      (''quixotic'', \<lparr>source = ''quixotic'', enabled = False, kinds = None\<rparr>),
      (''nouns'', \<lparr>source = ''nouns'', enabled = False, kinds = None\<rparr>),
      (''zora-v3'', \<lparr>source = ''zora-v3'', enabled = False, kinds = None\<rparr>),
      (''mint'', \<lparr>source = ''mint'', enabled = False, kinds = None\<rparr>),
      (''cryptopunks'', \<lparr>source = ''cryptopunks'', enabled = False, kinds = None\<rparr>),
      (''sudoswap'', \<lparr>source = ''sudoswap'', enabled = False, kinds = None\<rparr>),
      (''universe'', \<lparr>source = ''universe'', enabled = False, kinds = None\<rparr>),
      (''nftx'', \<lparr>source = ''nftx'', enabled = False, kinds = None\<rparr>),
      (''blur'', \<lparr>source = ''blur'', enabled = False, kinds = None\<rparr>),
      (''forward'', \<lparr>source = ''forward'', enabled = False, kinds = None\<rparr>)]"

text \<open>
  Reading the table: the entry of a marketplace, and the entry of a kind of a
  marketplace (absent when the marketplace has no \<open>kinds\<close> or not this one).
\<close>

definition marketplace :: "string \<Rightarrow> MarketplaceConfig option" where
  "marketplace mp = map_of config mp"

definition kind_of :: "string \<Rightarrow> string \<Rightarrow> KindConfig option" where
  "kind_of mp kd =
     (case marketplace mp of
        None \<Rightarrow> None
      | Some m \<Rightarrow> (case kinds m of None \<Rightarrow> None | Some ks \<Rightarrow> map_of ks kd))"

section \<open>Predicates on the store\<close>

text \<open>
  A key is fit for a set command when it is absent or holds a set, and fit for a
  sorted-set command when it is absent or holds a sorted set: these are the keys on
  which the command does not answer WRONGTYPE.
\<close>

definition set_or_absent :: "redis \<Rightarrow> string \<Rightarrow> bool" where
  "set_or_absent d k = (case d k of None \<Rightarrow> True | Some (RSet xs) \<Rightarrow> True | Some _ \<Rightarrow> False)"

definition zset_or_absent :: "redis \<Rightarrow> string \<Rightarrow> bool" where
  "zset_or_absent d k = (case d k of None \<Rightarrow> True | Some (RZSet zs) \<Rightarrow> True | Some _ \<Rightarrow> False)"

section \<open>States of the nonce provider\<close>

text \<open>
  The provider is running when it holds the lease, is not closed and has loaded its
  nonce.
\<close>

definition running :: "NonceProvider \<Rightarrow> bool" where
  "running s \<longleftrightarrow> p_signal s = Some False \<and> \<not> p_closed s
     \<and> p_nonceLoaded s = Some (Fulfilled ()) \<and> p_nonce s \<noteq> None"

section \<open>The commands of a removal\<close>

text \<open>
  \<open>removal\<close> tells the commands that only take away, \<open>command_keys\<close> the keys a
  command names, and \<open>not_member\<close> that a key holds no set with the member.
  \<open>inactive_txn\<close> is the list of commands that \<open>save\<close> queues for an order whose
  status is not active, given the index sets of the order and the members read from
  its match set.
\<close>

fun removal :: "command \<Rightarrow> bool" where
  "removal (SREM k m) = True"
| "removal (ZREM k ms) = True"
| "removal (DEL ks) = True"
| "removal c = False"

fun command_keys :: "command \<Rightarrow> string list" where
  "command_keys (SADD k m) = [k]"
| "command_keys (ZADD k sc m) = [k]"
| "command_keys (SET k v) = [k]"
| "command_keys (SREM k m) = [k]"
| "command_keys (ZREM k ms) = [k]"
| "command_keys (DEL ks) = ks"

definition not_member :: "redis \<Rightarrow> string \<Rightarrow> string \<Rightarrow> bool" where
  "not_member d k m = (case d k of Some (RSet xs) \<Rightarrow> m \<notin> set xs | _ \<Rightarrow> True)"

definition inactive_txn :: "OrderbookStorage \<Rightarrow> string \<Rightarrow> string list \<Rightarrow> string list \<Rightarrow> command list" where
  "inactive_txn st i sets matches =
     [SREM (storedOrdersSetKey st) i, ZREM (activeOrdersOrderedSetKey st) [i],
      DEL [getFullOrderKey st i]]
     @ map (\<lambda>k. ZREM k [i]) sets
     @ (if length matches > 0 then
          [DEL (map (getFullMatchKey st) matches), ZREM (matchesByGasPriceOrderedSetKey st) matches]
          @ map (\<lambda>m. SREM (getOrderMatchesSet st m) i) matches
        else [])
     @ [DEL [getOrderMatchesSet st i]]"

section \<open>Example inputs\<close>

text \<open>
  A number codec that knows the two numbers of the examples, a provider that has
  acquired the lease and loaded the watermark 7 with no persisted document, a listing
  of one token, and a store that holds one match \<open>0xm\<close> between the orders \<open>0xa\<close> and
  \<open>0xb\<close>, laid out as the design persists a match: the match id in the match sets of
  both orders, the full match under its key, the match id in the set ordered by gas
  price.
\<close>

definition ex_bn_from :: "string \<Rightarrow> string + int" where
  "ex_bn_from x =
     (if x = ''7'' then Inr 7 else if x = ''5'' then Inr 5 else Inl ''invalid BigNumber string'')"

definition ex_bn_toString :: "int \<Rightarrow> string" where
  "ex_bn_toString n = (if n = 7 then ''7'' else ''5'')"

definition ex_running :: NonceProvider where
  "ex_running =
     run_loaded ex_bn_from ex_bn_toString 7 1000 1000
       (run_acquired (new_NonceProvider ''1'' ''0xacc'' ''0xexch'' None 100))"

definition ex_sell_token :: Order where
  "ex_sell_token =
     \<lparr>params = \<lparr>side = Sell, complication = ''0xc0'', currency = ''0xweth'', startPriceEth = 1 / 10\<rparr>,
      getOrderItem = Inr (TokenItem ''0x1'' ''1'')\<rparr>"

definition ex_sell_collection :: Order where
  "ex_sell_collection =
     \<lparr>params = \<lparr>side = Sell, complication = ''0xc0'', currency = ''0xweth'', startPriceEth = 1 / 10\<rparr>,
      getOrderItem = Inr (CollectionItem ''0x1'')\<rparr>"

definition ex_empty :: OrderbookStorage where
  "ex_empty = \<lparr>chainId = ''1'', db = Map.empty, logs = []\<rparr>"

definition ex_matched :: OrderbookStorage where
  "ex_matched =
     \<lparr>chainId = ''1'',
      db = [''orderbook:v1:chain:1:order-matches:0xa'' \<mapsto> RSet [''0xm''],
            ''orderbook:v1:chain:1:order-matches:0xb'' \<mapsto> RSet [''0xm''],
            ''orderbook:v1:chain:1:order-matches:0xm:full'' \<mapsto> RString ''match'',
            ''orderbook:v1:chain:1:order-matches:by-gas-price'' \<mapsto> RZSet [(''0xm'', 0)]],
      logs = []\<rparr>"

section \<open>Facts about the store and the transaction\<close>

lemma set_or_absent_iff: "set_or_absent d k \<longleftrightarrow> d k = None \<or> (\<exists>xs. d k = Some (RSet xs))"
  by (auto simp: set_or_absent_def split: option.splits rvalue.splits)

lemma zset_or_absent_iff: "zset_or_absent d k \<longleftrightarrow> d k = None \<or> (\<exists>zs. d k = Some (RZSet zs))"
  by (auto simp: zset_or_absent_def split: option.splits rvalue.splits)

lemmas key_defs = getOrderMatchesSet_def matchesByGasPriceOrderedSetKey_def getFullMatchKey_def
  storedOrdersSetKey_def activeOrdersOrderedSetKey_def executedOrdersOrderedSetKey_def
  getFullOrderKey_def version_def

lemmas set_defs = getTokenListingsSet_def getTokenOffersSet_def getCollectionTokenListingsSet_def
  getCollectionTokenOffersSet_def getCollectionWideOffersSet_def

lemma snd_exec_Cons: "snd (exec (c # cs) d) = snd (exec cs (snd (run_command c d)))"
  by (simp split: prod.splits)

lemma db_log_to: "db (log_to l c m st) = db st"
  by (simp add: log_to_def)

lemma chainId_log_to: "chainId (log_to l c m st) = chainId st"
  by (simp add: log_to_def)

lemma db_fold_log:
  "db (fold (\<lambda>r s. case r of None \<Rightarrow> s | Some err \<Rightarrow> log_to l c (f err) s) rs st) = db st"
  by (induction rs arbitrary: st) (auto simp: db_log_to split: option.splits)

lemma chainId_fold_log:
  "chainId (fold (\<lambda>r s. case r of None \<Rightarrow> s | Some err \<Rightarrow> log_to l c (f err) s) rs st) = chainId st"
  by (induction rs arbitrary: st) (auto simp: chainId_log_to split: option.splits)

lemma db_commit: "db (commit item txn st) = snd (exec txn (db st))"
  by (simp add: commit_def db_fold_log db_log_to split: prod.splits)

lemma chainId_commit: "chainId (commit item txn st) = chainId st"
  by (simp add: commit_def chainId_fold_log chainId_log_to split: prod.splits)

lemma db_failed_event: "db (failed_event item err st) = db st"
  by (simp add: failed_event_def db_log_to)

lemma chainId_failed_event: "chainId (failed_event item err st) = chainId st"
  by (simp add: failed_event_def chainId_log_to)

lemma frame_SADD: "k' \<noteq> k \<Longrightarrow> snd (run_command (SADD k m) d) k' = d k'"
  by (simp split: option.splits rvalue.splits)

lemma frame_ZADD: "k' \<noteq> k \<Longrightarrow> snd (run_command (ZADD k sc m) d) k' = d k'"
  by (simp split: option.splits rvalue.splits)

lemma frame_SET: "k' \<noteq> k \<Longrightarrow> snd (run_command (SET k v) d) k' = d k'"
  by simp

lemma sadd_member:
  "set_or_absent d k \<Longrightarrow> \<exists>xs. snd (run_command (SADD k m) d) k = Some (RSet xs) \<and> m \<in> set xs"
  by (auto simp: set_or_absent_iff)

lemma zadd_score:
  "zset_or_absent d k \<Longrightarrow>
   \<exists>zs. snd (run_command (ZADD k sc m) d) k = Some (RZSet zs) \<and> map_of zs m = Some sc"
  by (auto simp: zset_or_absent_iff update_conv)

lemma set_value: "snd (run_command (SET k v) d) k = Some (RString v)"
  by simp

text \<open>
  Adding one member with one score to a list of sorted sets, each fit for the command:
  the member has the score in each of them, and no other key changes.
\<close>

lemma zadd_all:
  "\<forall>k\<in>set ks. zset_or_absent d k \<Longrightarrow>
   (\<forall>k\<in>set ks. zscore (snd (exec (map (\<lambda>k. ZADD k sc m) ks) d)) k m = Some sc) \<and>
   (\<forall>k. k \<notin> set ks \<longrightarrow> snd (exec (map (\<lambda>k. ZADD k sc m) ks) d) k = d k)"
proof (induction ks arbitrary: d)
  case Nil
  then show ?case by simp
next
  case (Cons a ks)
  define d1 where "d1 = snd (run_command (ZADD a sc m) d)"
  define d2 where "d2 = snd (exec (map (\<lambda>k. ZADD k sc m) ks) d1)"
  have e: "snd (exec (map (\<lambda>k. ZADD k sc m) (a # ks)) d) = d2"
    by (simp add: snd_exec_Cons d1_def d2_def del: exec.simps run_command.simps)
  have a: "zset_or_absent d a" using Cons.prems by simp
  obtain zs where zs: "d1 a = Some (RZSet zs)" "map_of zs m = Some sc"
    unfolding d1_def using zadd_score[OF a] by blast
  have d1o: "d1 k = d k" if "k \<noteq> a" for k
    unfolding d1_def using that by (rule frame_ZADD)
  have z1: "\<forall>k\<in>set ks. zset_or_absent d1 k"
  proof
    fix k assume k: "k \<in> set ks"
    show "zset_or_absent d1 k"
    proof (cases "k = a")
      case True
      then show ?thesis using zs(1) by (simp add: zset_or_absent_iff)
    next
      case False
      then show ?thesis using d1o Cons.prems k by (simp add: zset_or_absent_iff)
    qed
  qed
  have IH1: "\<forall>k\<in>set ks. zscore d2 k m = Some sc"
    and IH2: "\<forall>k. k \<notin> set ks \<longrightarrow> d2 k = d1 k"
    unfolding d2_def using Cons.IH[OF z1] by blast+
  have A: "zscore d2 a m = Some sc"
  proof (cases "a \<in> set ks")
    case True
    then show ?thesis using IH1 by blast
  next
    case False
    then have "d2 a = Some (RZSet zs)" using IH2 zs(1) by simp
    then show ?thesis using zs(2) by (simp add: zscore_def)
  qed
  have B: "d2 k = d k" if "k \<notin> set (a # ks)" for k
    using that IH2 d1o by simp
  show ?case unfolding e using A B IH1 by simp
qed

section \<open>Facts about the keys\<close>

lemma sets_scope:
  "getOrderItemSets ord = Inr (sets, sc) \<Longrightarrow>
   sc = startPriceEth (params ord) \<and> (\<forall>k\<in>set sets. \<exists>r. k = ''scope:'' @ r)"
  unfolding getOrderItemSets_def set_defs
  by (cases "getOrderItem ord"; cases "side (params ord)"; simp split: OrderItem.splits) auto

lemma stored_neq_active: "storedOrdersSetKey st \<noteq> activeOrdersOrderedSetKey st"
  by (simp add: key_defs)

lemma stored_neq_full: "storedOrdersSetKey st \<noteq> getFullOrderKey st i"
  by (simp add: key_defs)

lemma active_neq_full: "activeOrdersOrderedSetKey st \<noteq> getFullOrderKey st i"
  by (simp add: key_defs)

lemma scope_neq_keys:
  "''scope:'' @ r \<noteq> storedOrdersSetKey st"
  "''scope:'' @ r \<noteq> activeOrdersOrderedSetKey st"
  "''scope:'' @ r \<noteq> getFullOrderKey st i"
  by (simp_all add: key_defs)

lemma key_cong:
  "chainId st = chainId st' \<Longrightarrow>
     getOrderMatchesSet st = getOrderMatchesSet st'
   \<and> matchesByGasPriceOrderedSetKey st = matchesByGasPriceOrderedSetKey st'
   \<and> getFullMatchKey st = getFullMatchKey st'
   \<and> storedOrdersSetKey st = storedOrdersSetKey st'
   \<and> activeOrdersOrderedSetKey st = activeOrdersOrderedSetKey st'
   \<and> getFullOrderKey st = getFullOrderKey st'"
  by (simp add: key_defs fun_eq_iff)

text \<open>
  The currency of an order has no part in the names of its index sets.
\<close>

lemma getOrderItemSets_currency:
  "getOrderItemSets (ord\<lparr>params := (params ord)\<lparr>currency := c\<rparr>\<rparr>) = getOrderItemSets ord"
  by (simp add: getOrderItemSets_def set_defs split: sum.splits Side.splits OrderItem.splits)

section \<open>Saving orders\<close>

text \<open>
  What \<open>save\<close> does to the store depends on the store and the chain id only, not on
  what has been logged before.
\<close>

lemma save_item_cong:
  assumes "db st = db st'" and "chainId st = chainId st'"
  shows "db (save_item n s it st) = db (save_item n s it st')
       \<and> chainId (save_item n s it st) = chainId (save_item n s it st')"
  using key_cong[OF assms(2)] assms
  by (simp add: save_item_def Let_def db_commit chainId_commit db_failed_event
      chainId_failed_event db_log_to chainId_log_to
      split: sum.split prod.split del: exec.simps)

lemma save_cong:
  "db st = db st' \<Longrightarrow> chainId st = chainId st' \<Longrightarrow>
   db (save n s its st) = db (save n s its st')"
proof (induction its arbitrary: st st')
  case Nil
  then show ?case by (simp add: save_def)
next
  case (Cons it its)
  from save_item_cong[OF Cons.prems, of n s it]
  have "db (save n s its (save_item n s it st)) = db (save n s its (save_item n s it st'))"
    using Cons.IH by blast
  then show ?case by (simp add: save_def)
qed

lemma chainId_save_item: "chainId (save_item n s it st) = chainId st"
  by (simp add: save_item_def Let_def chainId_commit chainId_failed_event chainId_log_to
      split: sum.split prod.split)

text \<open>
  What saving an order with a status other than active does in general: the commands it
  queues only take away, so what one of them removes stays removed.
\<close>

lemma snd_exec_append: "snd (exec (a @ b) d) = snd (exec b (snd (exec a d)))"
  by (induction a arbitrary: d) (simp_all add: snd_exec_Cons del: exec.simps(2))

lemma run_command_frame: "k \<notin> set (command_keys c) \<Longrightarrow> snd (run_command c d) k = d k"
  by (cases c) (auto simp: put_set_def put_zset_def split: option.splits rvalue.splits)

lemma exec_frame:
  "\<forall>c\<in>set cs. k \<notin> set (command_keys c) \<Longrightarrow> snd (exec cs d) k = d k"
  by (induction cs arbitrary: d) (simp_all add: snd_exec_Cons run_command_frame del: exec.simps(2))

lemma removal_absent: "removal c \<Longrightarrow> d k = None \<Longrightarrow> snd (run_command c d) k = None"
  by (cases c) (auto simp: put_set_def put_zset_def restrict_map_def split: option.splits rvalue.splits)

lemma map_of_filter_None: "map_of zs m = None \<Longrightarrow> map_of (filter P zs) m = None"
  by (induction zs) auto

lemma removal_zscore:
  "removal c \<Longrightarrow> zscore d k m = None \<Longrightarrow> zscore (snd (run_command c d)) k m = None"
  by (cases c)
    (auto simp: zscore_def put_set_def put_zset_def map_of_filter_None restrict_map_def
      split: option.splits rvalue.splits if_splits)

lemma removal_not_member:
  "removal c \<Longrightarrow> not_member d k m \<Longrightarrow> not_member (snd (run_command c d)) k m"
  by (cases c)
    (auto simp: not_member_def put_set_def put_zset_def restrict_map_def
      split: option.splits rvalue.splits if_splits)

lemma exec_preserved:
  assumes "\<forall>c\<in>set cs. removal c" and "\<And>c d. removal c \<Longrightarrow> P d \<Longrightarrow> P (snd (run_command c d))"
      and "P d"
  shows "P (snd (exec cs d))"
  using assms(1,3)
  by (induction cs arbitrary: d) (simp_all add: snd_exec_Cons assms(2) del: exec.simps(2))

lemma established_preserved:
  assumes "c \<in> set txn" and "\<forall>c\<in>set txn. removal c"
      and "\<And>d. P (snd (run_command c d))"
      and "\<And>c d. removal c \<Longrightarrow> P d \<Longrightarrow> P (snd (run_command c d))"
  shows "P (snd (exec txn d))"
proof -
  from assms(1) obtain pre post where t: "txn = pre @ c # post"
    by (meson split_list)
  have post: "\<forall>c\<in>set post. removal c" using assms(2) t by simp
  have "snd (exec txn d) = snd (exec post (snd (run_command c (snd (exec pre d)))))"
    unfolding t by (simp add: snd_exec_append snd_exec_Cons del: exec.simps(2))
  moreover have "P (snd (exec post (snd (run_command c (snd (exec pre d))))))"
    by (rule exec_preserved[where P = P, OF post]) (use assms(3,4) in auto)
  ultimately show ?thesis by simp
qed

lemma del_effect: "k \<in> set ks \<Longrightarrow> snd (run_command (DEL ks) d) k = None"
  by simp

lemma zrem_effect: "m \<in> set ms \<Longrightarrow> zscore (snd (run_command (ZREM k ms) d)) k m = None"
  by (auto simp: zscore_def put_zset_def map_of_eq_None_iff split: option.splits rvalue.splits)

lemma srem_effect: "not_member (snd (run_command (SREM k m) d)) k m"
  by (auto simp: not_member_def put_set_def split: option.splits rvalue.splits)

lemma save_inactive_db:
  assumes "newOrder (order_id item) (chainId st) (order item) = Inr ord"
      and "getOrderItemSets ord = Inr (sets, sc)"
      and "status item \<noteq> ''active''"
      and "smembers (db st) (getOrderMatchesSet st (order_id item)) = Inr matches"
  shows "db (save newOrder stringify [item] st)
           = snd (exec (inactive_txn st (order_id item) sets matches) (db st))"
  using assms
  by (simp add: save_def save_item_def Let_def db_commit db_log_to inactive_txn_def
      del: exec.simps)

lemma inactive_txn_removal: "\<forall>c\<in>set (inactive_txn st i sets matches). removal c"
  by (auto simp: inactive_txn_def)

lemma save_inactive_cleanup:
  assumes "newOrder (order_id item) (chainId st) (order item) = Inr ord"
      and "getOrderItemSets ord = Inr (sets, sc)"
      and "status item \<noteq> ''active''"
      and "smembers (db st) (getOrderMatchesSet st (order_id item)) = Inr matches"
  shows "not_member (db (save newOrder stringify [item] st)) (storedOrdersSetKey st) (order_id item)
       \<and> zscore (db (save newOrder stringify [item] st)) (activeOrdersOrderedSetKey st) (order_id item) = None
       \<and> db (save newOrder stringify [item] st) (getFullOrderKey st (order_id item)) = None
       \<and> (\<forall>k\<in>set sets. zscore (db (save newOrder stringify [item] st)) k (order_id item) = None)
       \<and> (\<forall>m\<in>set matches.
             db (save newOrder stringify [item] st) (getFullMatchKey st m) = None
           \<and> zscore (db (save newOrder stringify [item] st)) (matchesByGasPriceOrderedSetKey st) m = None
           \<and> not_member (db (save newOrder stringify [item] st)) (getOrderMatchesSet st m) (order_id item))
       \<and> db (save newOrder stringify [item] st) (getOrderMatchesSet st (order_id item)) = None"
proof -
  let ?i = "order_id item"
  let ?txn = "inactive_txn st ?i sets matches"
  note R = inactive_txn_removal[of st ?i sets matches]
  have e: "db (save newOrder stringify [item] st) = snd (exec ?txn (db st))"
    using assms by (rule save_inactive_db)
  have 1: "not_member (snd (exec ?txn (db st))) (storedOrdersSetKey st) ?i"
    by (rule established_preserved[where c = "SREM (storedOrdersSetKey st) ?i", OF _ R])
      (simp_all add: inactive_txn_def srem_effect removal_not_member del: run_command.simps)
  have 2: "zscore (snd (exec ?txn (db st))) (activeOrdersOrderedSetKey st) ?i = None"
    by (rule established_preserved[where c = "ZREM (activeOrdersOrderedSetKey st) [?i]", OF _ R])
      (simp_all add: inactive_txn_def zrem_effect removal_zscore del: run_command.simps)
  have 3: "snd (exec ?txn (db st)) (getFullOrderKey st ?i) = None"
    by (rule established_preserved[where c = "DEL [getFullOrderKey st ?i]", OF _ R])
      (simp_all add: inactive_txn_def removal_absent del_effect del: run_command.simps)
  have 4: "zscore (snd (exec ?txn (db st))) k ?i = None" if "k \<in> set sets" for k
    by (rule established_preserved[where c = "ZREM k [?i]", OF _ R])
      (use that in \<open>simp_all add: inactive_txn_def zrem_effect removal_zscore del: run_command.simps\<close>)
  have 5: "snd (exec ?txn (db st)) (getFullMatchKey st m) = None" if "m \<in> set matches" for m
    by (rule established_preserved[where c = "DEL (map (getFullMatchKey st) matches)", OF _ R])
      (use that in \<open>auto simp: inactive_txn_def removal_absent del_effect simp del: run_command.simps\<close>)
  have 6: "zscore (snd (exec ?txn (db st))) (matchesByGasPriceOrderedSetKey st) m = None"
    if "m \<in> set matches" for m
    by (rule established_preserved[where c = "ZREM (matchesByGasPriceOrderedSetKey st) matches", OF _ R])
      (use that in \<open>auto simp: inactive_txn_def zrem_effect removal_zscore simp del: run_command.simps\<close>)
  have 7: "not_member (snd (exec ?txn (db st))) (getOrderMatchesSet st m) ?i"
    if "m \<in> set matches" for m
    by (rule established_preserved[where c = "SREM (getOrderMatchesSet st m) ?i", OF _ R])
      (use that in \<open>auto simp: inactive_txn_def srem_effect removal_not_member simp del: run_command.simps\<close>)
  have 8: "snd (exec ?txn (db st)) (getOrderMatchesSet st ?i) = None"
    by (rule established_preserved[where c = "DEL [getOrderMatchesSet st ?i]", OF _ R])
      (simp_all add: inactive_txn_def removal_absent del_effect del: run_command.simps)
  show ?thesis unfolding e using 1 2 3 4 5 6 7 8 by blast
qed

lemma matches_key_neq:
  "getOrderMatchesSet st b \<noteq> storedOrdersSetKey st"
  "getOrderMatchesSet st b \<noteq> activeOrdersOrderedSetKey st"
  "getOrderMatchesSet st b \<noteq> getFullOrderKey st i"
  "getOrderMatchesSet st b \<noteq> ''scope:'' @ r"
  by (simp_all add: key_defs)

lemma matches_key_eq:
  "getOrderMatchesSet st b = getOrderMatchesSet st c \<longleftrightarrow> b = c"
  "getOrderMatchesSet st b = getFullMatchKey st m \<longleftrightarrow> b = m @ '':full''"
  "getOrderMatchesSet st b = matchesByGasPriceOrderedSetKey st \<longleftrightarrow> b = ''by-gas-price''"
  by (simp_all add: key_defs)

lemma save_inactive_counterpart:
  assumes "newOrder (order_id item) (chainId st) (order item) = Inr ord"
      and "getOrderItemSets ord = Inr (sets, sc)"
      and "status item \<noteq> ''active''"
      and "smembers (db st) (getOrderMatchesSet st (order_id item)) = Inr matches"
      and "b \<noteq> order_id item" and "b \<notin> set matches" and "b \<noteq> ''by-gas-price''"
      and "\<forall>m\<in>set matches. b \<noteq> m @ '':full''"
  shows "db (save newOrder stringify [item] st) (getOrderMatchesSet st b)
           = db st (getOrderMatchesSet st b)"
proof -
  have scope: "\<forall>k\<in>set sets. \<exists>r. k = ''scope:'' @ r"
    using sets_scope[OF assms(2)] by auto
  have "\<forall>c\<in>set (inactive_txn st (order_id item) sets matches).
          getOrderMatchesSet st b \<notin> set (command_keys c)"
    using assms(5-8) scope matches_key_neq[of st b]
    by (auto simp: inactive_txn_def matches_key_eq)
  then show ?thesis
    using save_inactive_db[of newOrder item st ord sets sc matches stringify] assms(1-4)
    by (simp add: exec_frame del: exec.simps)
qed

text \<open>
  C1. Saving an order with a status other than active should delete, for each match id
  in the order's match set, the full match, remove the match id from the set ordered
  by gas price, remove the reverse pointer from the counterpart order's match set, and
  delete the order's match set, so that nothing of the order or its matches remains.
  On the store with one match \<open>0xm\<close> between \<open>0xa\<close> and \<open>0xb\<close>, saving \<open>0xa\<close> as
  cancelled deletes the full match, the entry ordered by gas price and the match set of
  \<open>0xa\<close>, but the match set of the counterpart \<open>0xb\<close> still holds \<open>0xm\<close>: the
  command that should remove the reverse pointer is sent to the match set named after
  the match id, and removes the order id from it.
\<close>

theorem cancel_leaves_counterpart_pointer:
  "smembers (db (save (\<lambda>i c r. Inr ex_sell_token) (\<lambda>i. ''{}'')
                  [\<lparr>order_id = ''0xa'', status = ''cancelled'', order = ()\<rparr>] ex_matched))
     ''orderbook:v1:chain:1:order-matches:0xb'' = Inr [''0xm'']
   \<and> db (save (\<lambda>i c r. Inr ex_sell_token) (\<lambda>i. ''{}'')
                  [\<lparr>order_id = ''0xa'', status = ''cancelled'', order = ()\<rparr>] ex_matched)
       ''orderbook:v1:chain:1:order-matches:0xm:full'' = None
   \<and> db (save (\<lambda>i c r. Inr ex_sell_token) (\<lambda>i. ''{}'')
                  [\<lparr>order_id = ''0xa'', status = ''cancelled'', order = ()\<rparr>] ex_matched)
       ''orderbook:v1:chain:1:order-matches:by-gas-price'' = None
   \<and> db (save (\<lambda>i c r. Inr ex_sell_token) (\<lambda>i. ''{}'')
                  [\<lparr>order_id = ''0xa'', status = ''cancelled'', order = ()\<rparr>] ex_matched)
       ''orderbook:v1:chain:1:order-matches:0xa'' = None"
proof -
  have e: "db (save (\<lambda>i c r. Inr ex_sell_token) (\<lambda>i. ''{}'')
                  [\<lparr>order_id = ''0xa'', status = ''cancelled'', order = ()\<rparr>] ex_matched)
      = [''orderbook:v1:chain:1:order-matches:0xb'' \<mapsto> RSet [''0xm'']]"
    by (simp add: save_def save_item_def db_commit db_log_to snd_exec_Cons smembers_def
        ex_matched_def ex_sell_token_def getOrderItemSets_def key_defs set_defs Let_def
        put_set_def put_zset_def fun_eq_iff restrict_map_def del: exec.simps(2))
  show ?thesis unfolding e by (simp add: smembers_def)
qed

text \<open>
  C2. Two active orders that agree on side, scope, complication, collection and token
  id but differ in currency should be indexed into distinct per-asset sets. A listing
  of token 1 of collection \<open>0x1\<close> priced in \<open>0xweth\<close> and the same listing priced in
  \<open>0xusdc\<close> get the same two set names: the currency is handed to the functions that
  build the names and is left out of every name.
\<close>

theorem index_sets_shared_across_currencies:
  "getOrderItemSets \<lparr>params = \<lparr>side = Sell, complication = ''0xc0'', currency = ''0xweth'',
                                 startPriceEth = 1\<rparr>,
                      getOrderItem = Inr (TokenItem ''0x1'' ''1'')\<rparr>
     = Inr ([''scope:token-orders:complication:0xc0:side:sell:collection:0x1:tokenId:1'',
             ''scope:collection-token-orders:complication:0xc0:side:sell:collection:0x1''], 1)
   \<and> getOrderItemSets \<lparr>params = \<lparr>side = Sell, complication = ''0xc0'', currency = ''0xusdc'',
                                 startPriceEth = 1\<rparr>,
                      getOrderItem = Inr (TokenItem ''0x1'' ''1'')\<rparr>
     = Inr ([''scope:token-orders:complication:0xc0:side:sell:collection:0x1:tokenId:1'',
             ''scope:collection-token-orders:complication:0xc0:side:sell:collection:0x1''], 1)"
  by (simp add: getOrderItemSets_def getTokenListingsSet_def getCollectionTokenListingsSet_def)

text \<open>
  C3. After an order is saved with the status active, its id is a member of the set of
  orders (\<open>has\<close> answers true), it is in the sorted set of active orders with the score
  -1, its full payload
  is stored under its full-order key, and it is in every per-asset sorted set that the
  derivation of the index sets returns for it, with the score \<open>startPriceEth\<close>. This
  holds whenever the order is built, the derivation returns, and each key written with
  a set command is absent or holds a value of the kind of the command.
\<close>

theorem save_active_indexes:
  assumes "newOrder (order_id item) (chainId st) (order item) = Inr ord"
      and "getOrderItemSets ord = Inr (sets, sc)"
      and "status item = ''active''"
      and "set_or_absent (db st) (storedOrdersSetKey st)"
      and "zset_or_absent (db st) (activeOrdersOrderedSetKey st)"
      and "\<forall>k\<in>set sets. zset_or_absent (db st) k"
  shows "sismember (db (save newOrder stringify [item] st)) (storedOrdersSetKey st) (order_id item) = Inr 1
       \<and> has (save newOrder stringify [item] st) (order_id item) = Inr True
       \<and> zscore (db (save newOrder stringify [item] st)) (activeOrdersOrderedSetKey st) (order_id item) = Some (- 1)
       \<and> get_string (db (save newOrder stringify [item] st)) (getFullOrderKey st (order_id item)) = Some (stringify item)
       \<and> (\<forall>k\<in>set sets. zscore (db (save newOrder stringify [item] st)) k (order_id item)
             = Some (startPriceEth (params ord)))"
proof -
  let ?i = "order_id item"
  let ?S = "storedOrdersSetKey st" and ?A = "activeOrdersOrderedSetKey st"
  let ?F = "getFullOrderKey st ?i"
  define d1 where "d1 = snd (run_command (SADD ?S ?i) (db st))"
  define d2 where "d2 = snd (run_command (ZADD ?A (- 1) ?i) d1)"
  define d3 where "d3 = snd (run_command (SET ?F (stringify item)) d2)"
  define d4 where "d4 = snd (exec (map (\<lambda>k. ZADD k sc ?i) sets) d3)"
  have dbeq: "db (save newOrder stringify [item] st) = d4"
    using assms(1-3)
    by (simp add: save_def save_item_def db_commit db_log_to snd_exec_Cons d1_def d2_def d3_def
        d4_def del: exec.simps run_command.simps)
  have sc: "sc = startPriceEth (params ord)" and scope: "\<forall>k\<in>set sets. \<exists>r. k = ''scope:'' @ r"
    using sets_scope[OF assms(2)] by auto
  have notin: "?S \<notin> set sets" "?A \<notin> set sets" "?F \<notin> set sets"
    using scope scope_neq_keys by metis+
  have S3: "d3 ?S = d1 ?S"
    unfolding d3_def d2_def using frame_SET frame_ZADD stored_neq_active stored_neq_full by metis
  have A3: "d3 ?A = d2 ?A"
    unfolding d3_def using frame_SET active_neq_full by metis
  have A1: "d1 ?A = db st ?A"
    unfolding d1_def using frame_SADD stored_neq_active by metis
  obtain xs where xs: "d1 ?S = Some (RSet xs)" "?i \<in> set xs"
    unfolding d1_def using sadd_member[OF assms(4)] by blast
  have zA: "zset_or_absent d1 ?A"
    using assms(5) A1 by (simp add: zset_or_absent_iff)
  obtain zs where zs: "d2 ?A = Some (RZSet zs)" "map_of zs ?i = Some (- 1)"
    unfolding d2_def using zadd_score[OF zA] by blast
  have F3: "d3 ?F = Some (RString (stringify item))"
    unfolding d3_def by (rule set_value)
  have fr: "d3 k = db st k" if "k \<in> set sets" for k
  proof -
    from that scope obtain r where k: "k = ''scope:'' @ r" by blast
    have "k \<noteq> ?S" "k \<noteq> ?A" "k \<noteq> ?F" unfolding k by (rule scope_neq_keys)+
    then show ?thesis
      unfolding d3_def d2_def d1_def using frame_SET frame_ZADD frame_SADD by metis
  qed
  have z3: "\<forall>k\<in>set sets. zset_or_absent d3 k"
    using assms(6) fr by (simp add: zset_or_absent_iff)
  have Z1: "\<forall>k\<in>set sets. zscore d4 k ?i = Some sc"
    and Z2: "\<forall>k. k \<notin> set sets \<longrightarrow> d4 k = d3 k"
    unfolding d4_def using zadd_all[OF z3, of sc ?i] by blast+
  have "d4 ?S = Some (RSet xs)" using Z2 notin(1) S3 xs(1) by simp
  then have g1: "sismember d4 ?S ?i = Inr 1" using xs(2) by (simp add: sismember_def)
  have "d4 ?A = Some (RZSet zs)" using Z2 notin(2) A3 zs(1) by simp
  then have g2: "zscore d4 ?A ?i = Some (- 1)" using zs(2) by (simp add: zscore_def)
  have "d4 ?F = Some (RString (stringify item))" using Z2 notin(3) F3 by simp
  then have g3: "get_string d4 ?F = Some (stringify item)" by (simp add: get_string_def)
  have "storedOrdersSetKey (save newOrder stringify [item] st) = ?S"
    using key_cong[of "save newOrder stringify [item] st" st]
    by (simp add: save_def chainId_save_item)
  then have g4: "has (save newOrder stringify [item] st) ?i = Inr True"
    using g1 dbeq by (simp add: has_def)
  show ?thesis using g1 g2 g3 g4 Z1 sc unfolding dbeq by simp
qed

theorem save_active_indexes_witness:
  "sismember (db (save (\<lambda>i c r. Inr ex_sell_token) (\<lambda>i. ''{}'')
                   [\<lparr>order_id = ''0xa'', status = ''active'', order = ()\<rparr>] ex_empty))
     ''orderbook:v1:chain:1:orders'' ''0xa'' = Inr 1
   \<and> has (save (\<lambda>i c r. Inr ex_sell_token) (\<lambda>i. ''{}'')
                   [\<lparr>order_id = ''0xa'', status = ''active'', order = ()\<rparr>] ex_empty) ''0xa''
       = Inr True
   \<and> zscore (db (save (\<lambda>i c r. Inr ex_sell_token) (\<lambda>i. ''{}'')
                   [\<lparr>order_id = ''0xa'', status = ''active'', order = ()\<rparr>] ex_empty))
       ''orderbook:v1:chain:1:order-status:active'' ''0xa'' = Some (- 1)
   \<and> get_string (db (save (\<lambda>i c r. Inr ex_sell_token) (\<lambda>i. ''{}'')
                   [\<lparr>order_id = ''0xa'', status = ''active'', order = ()\<rparr>] ex_empty))
       ''orderbook:v1:chain:1:orders:0xa:full'' = Some ''{}''
   \<and> zscore (db (save (\<lambda>i c r. Inr ex_sell_token) (\<lambda>i. ''{}'')
                   [\<lparr>order_id = ''0xa'', status = ''active'', order = ()\<rparr>] ex_empty))
       ''scope:token-orders:complication:0xc0:side:sell:collection:0x1:tokenId:1'' ''0xa''
       = Some (1 / 10)
   \<and> zscore (db (save (\<lambda>i c r. Inr ex_sell_token) (\<lambda>i. ''{}'')
                   [\<lparr>order_id = ''0xa'', status = ''active'', order = ()\<rparr>] ex_empty))
       ''scope:collection-token-orders:complication:0xc0:side:sell:collection:0x1'' ''0xa''
       = Some (1 / 10)"
  using save_active_indexes[where newOrder = "\<lambda>i c r. Inr ex_sell_token"
      and item = "\<lparr>order_id = ''0xa'', status = ''active'', order = ()\<rparr>"
      and st = ex_empty and ord = ex_sell_token
      and sets = "[''scope:token-orders:complication:0xc0:side:sell:collection:0x1:tokenId:1'',
                   ''scope:collection-token-orders:complication:0xc0:side:sell:collection:0x1'']"
      and sc = "1 / 10" and stringify = "\<lambda>i. ''{}''"]
  by (simp add: ex_empty_def ex_sell_token_def getOrderItemSets_def set_defs key_defs
      set_or_absent_def zset_or_absent_def)

text \<open>
  C7. Saving an order with the side sell and the collection-wide scope is rejected as
  unsupported: the derivation of the index sets raises the error before any command is
  queued, the entry only adds the error line to the log and leaves the store and
  everything else as they were, and the entries after it in the batch act on the store
  as they would without it.
\<close>

theorem save_rejects_sell_collection:
  assumes "newOrder (order_id item) (chainId st) (order item) = Inr ord"
      and "side (params ord) = Sell"
      and "getOrderItem ord = Inr (CollectionItem col)"
  shows "getOrderItemSets ord = Inl ''Error: Unsupported order side''
       \<and> save newOrder stringify [item] st
           = st\<lparr>logs := logs st @
                 [(Error, ''orderbook-storage'',
                   ''Failed to save order event '' @ order_id item @ '' - '' @ status item
                     @ '' Error: Unsupported order side'')]\<rparr>
       \<and> db (save newOrder stringify (item # rest) st) = db (save newOrder stringify rest st)"
proof -
  have g: "getOrderItemSets ord = Inl ''Error: Unsupported order side''"
    using assms(2,3) by (simp add: getOrderItemSets_def)
  have one: "save_item newOrder stringify item st
           = st\<lparr>logs := logs st @
                 [(Error, ''orderbook-storage'',
                   ''Failed to save order event '' @ order_id item @ '' - '' @ status item
                     @ '' Error: Unsupported order side'')]\<rparr>"
    using assms(1) g by (simp add: save_item_def failed_event_def log_to_def)
  have "db (save newOrder stringify rest (save_item newOrder stringify item st))
      = db (save newOrder stringify rest st)"
    by (rule save_cong) (simp_all add: one)
  then show ?thesis using g one by (simp add: save_def)
qed

theorem save_rejects_sell_collection_witness:
  "save (\<lambda>i c r. Inr ex_sell_collection) (\<lambda>i. ''{}'')
     [\<lparr>order_id = ''0xa'', status = ''active'', order = ()\<rparr>] ex_empty
   = ex_empty\<lparr>logs :=
       [(Error, ''orderbook-storage'',
         ''Failed to save order event 0xa - active Error: Unsupported order side'')]\<rparr>
   \<and> db (save (\<lambda>i c r. Inr ex_sell_collection) (\<lambda>i. ''{}'')
           [\<lparr>order_id = ''0xa'', status = ''active'', order = ()\<rparr>,
            \<lparr>order_id = ''0xb'', status = ''cancelled'', order = ()\<rparr>] ex_empty)
     = db (save (\<lambda>i c r. Inr ex_sell_collection) (\<lambda>i. ''{}'')
           [\<lparr>order_id = ''0xb'', status = ''cancelled'', order = ()\<rparr>] ex_empty)"
  using save_rejects_sell_collection[where newOrder = "\<lambda>i c r. Inr ex_sell_collection"
      and item = "\<lparr>order_id = ''0xa'', status = ''active'', order = ()\<rparr>"
      and st = ex_empty and ord = ex_sell_collection and col = "''0x1''"
      and stringify = "\<lambda>i. ''{}''"
      and rest = "[\<lparr>order_id = ''0xb'', status = ''cancelled'', order = ()\<rparr>]"]
  by (simp add: ex_empty_def ex_sell_collection_def)

section \<open>Allocating nonces\<close>

lemma new_NonceProvider_unset: "p_signal (new_NonceProvider c a x d n) = None"
  by (simp add: new_NonceProvider_def)

lemma run_lock_failed_signal: "p_signal (run_lock_failed s) = p_signal s"
  by (simp add: run_lock_failed_def np_log_def)

lemma incrementNonce_Returned:
  "incrementNonce s = (Returned n, s') \<Longrightarrow>
   p_nonce s = Some (n - 1) \<and> p_nonce s' = Some n \<and> p_signal s' = p_signal s
   \<and> p_closed s' = p_closed s \<and> p_nonceLoaded s' = p_nonceLoaded s"
  by (auto simp: incrementNonce_def saveNonce_def split: option.splits if_splits)

lemma getNonce_resume_Returned:
  "getNonce_resume s = (Returned n, s') \<Longrightarrow> incrementNonce s = (Returned n, s')"
  by (auto simp: getNonce_resume_def split: option.splits promise.splits)

lemma getNonce_Returned:
  "getNonce s = (Returned n, s') \<Longrightarrow> incrementNonce s = (Returned n, s')"
  by (auto simp: getNonce_def split: sum.splits option.splits dest: getNonce_resume_Returned)

text \<open>A running provider hands out the next nonce and stays running.\<close>

lemma getNonce_running:
  "running s \<Longrightarrow> \<exists>n s'. p_nonce s = Some n \<and> getNonce s = (Returned (n + 1), s') \<and> running s'"
  by (auto simp: running_def getNonce_def getNonce_resume_def checkSignal_def incrementNonce_def
      saveNonce_def)

lemma ex_running_eq:
  "ex_running = \<lparr>p_chainId = ''1'', p_accountAddress = ''0xacc'', p_exchangeAddress = ''0xexch'',
      p_saveDelay = 100, p_nonceLoaded = Some (Fulfilled ()), p_nonce = Some 7,
      p_ref = Some \<lparr>doc_chainId = ''1'', matchExecutorAddress = ''0xacc'',
                        exchangeAddress = ''0xexch'', nonce = ''7'', updatedAt = 1000,
                        createdAt = 1000\<rparr>,
      p_signal = Some False, p_pendingSave = False, p_close = True, p_closed = False,
      p_logs = [(Info, ''nonce-provider'',
                 ''Acquired nonce lock for account: 0xacc exchange: 0xexch'')]\<rparr>"
  by (simp add: ex_running_def run_loaded_def loadNonce_def run_acquired_def np_log_def
      new_NonceProvider_def ex_bn_from_def ex_bn_toString_def Let_def)

lemma running_ex_running: "running ex_running"
  by (simp add: running_def ex_running_eq)

text \<open>
  C4. Under one held lease the nonces are handed out in sequence: of two consecutive
  calls of \<open>getNonce\<close> that return, be it at once or after their suspension on the
  load, the second returns the successor of what the first returned; each call adds
  exactly 1 to the nonce in memory and returns the new value.
\<close>

theorem getNonce_sequential:
  assumes "f = getNonce \<or> f = getNonce_resume" and "g = getNonce \<or> g = getNonce_resume"
      and "f s = (Returned n1, s1)" and "g s1 = (Returned n2, s2)"
  shows "n2 = n1 + 1 \<and> p_nonce s = Some (n1 - 1) \<and> p_nonce s1 = Some n1 \<and> p_nonce s2 = Some n2"
proof -
  have i1: "incrementNonce s = (Returned n1, s1)"
    using assms(1,3) getNonce_Returned getNonce_resume_Returned by blast
  have i2: "incrementNonce s1 = (Returned n2, s2)"
    using assms(2,4) getNonce_Returned getNonce_resume_Returned by blast
  from incrementNonce_Returned[OF i1] incrementNonce_Returned[OF i2]
  show ?thesis by auto
qed

theorem getNonce_sequential_witness:
  "getNonce ex_running = (Returned 8, snd (getNonce ex_running))
   \<and> getNonce (snd (getNonce ex_running)) = (Returned 9, snd (getNonce (snd (getNonce ex_running))))
   \<and> p_nonce ex_running = Some 7
   \<and> p_nonce (snd (getNonce ex_running)) = Some 8
   \<and> p_nonce (snd (getNonce (snd (getNonce ex_running)))) = Some 9"
proof -
  have a: "getNonce ex_running = (Returned 8, snd (getNonce ex_running))"
    by (simp add: ex_running_eq getNonce_def getNonce_resume_def checkSignal_def
        incrementNonce_def saveNonce_def)
  have b: "getNonce (snd (getNonce ex_running))
             = (Returned 9, snd (getNonce (snd (getNonce ex_running))))"
    by (simp add: ex_running_eq getNonce_def getNonce_resume_def checkSignal_def
        incrementNonce_def saveNonce_def)
  show ?thesis
    using a b getNonce_sequential[of getNonce getNonce ex_running 8 "snd (getNonce ex_running)" 9
        "snd (getNonce (snd (getNonce ex_running)))"]
    by simp
qed

text \<open>
  C5. On load the nonce in memory becomes the greater of the persisted nonce and the
  watermark \<open>userMinOrderNonce\<close> of the exchange contract, with nothing added; when no
  document is persisted, one is created first with the watermark as its nonce, and the
  nonce in memory is then that watermark.
\<close>

theorem loadNonce_effective:
  "(p_ref s = Some d \<longrightarrow> bn_from (nonce d) = Inr persisted \<longrightarrow>
      loadNonce bn_from bn_toString w nu nc s = (Returned (), s\<lparr>p_nonce := Some (max persisted w)\<rparr>))
   \<and> (p_ref s = None \<longrightarrow> bn_from (bn_toString w) = Inr w \<longrightarrow>
      loadNonce bn_from bn_toString w nu nc s =
        (Returned (),
         s\<lparr>p_ref := Some \<lparr>doc_chainId = p_chainId s, matchExecutorAddress = p_accountAddress s,
                           exchangeAddress = p_exchangeAddress s, nonce = bn_toString w,
                           updatedAt = nu, createdAt = nc\<rparr>,
           p_nonce := Some w\<rparr>))"
  by (auto simp: loadNonce_def max_def Let_def)

theorem loadNonce_effective_witness:
  "loadNonce ex_bn_from ex_bn_toString 5 2000 2001 ex_running
     = (Returned (), ex_running\<lparr>p_nonce := Some 7\<rparr>)
   \<and> loadNonce ex_bn_from ex_bn_toString 7 1000 1001
        (new_NonceProvider ''1'' ''0xacc'' ''0xexch'' None 100)
     = (Returned (),
        (new_NonceProvider ''1'' ''0xacc'' ''0xexch'' None 100)
          \<lparr>p_ref := Some \<lparr>doc_chainId = ''1'', matchExecutorAddress = ''0xacc'',
                            exchangeAddress = ''0xexch'', nonce = ''7'',
                            updatedAt = 1000, createdAt = 1001\<rparr>,
            p_nonce := Some 7\<rparr>)"
  using loadNonce_effective[of ex_running
          "\<lparr>doc_chainId = ''1'', matchExecutorAddress = ''0xacc'', exchangeAddress = ''0xexch'',
            nonce = ''7'', updatedAt = 1000, createdAt = 1000\<rparr>"
          ex_bn_from 7 ex_bn_toString 5 2000 2001]
        loadNonce_effective[of "new_NonceProvider ''1'' ''0xacc'' ''0xexch'' None 100"
          undefined ex_bn_from 0 ex_bn_toString 7 1000 1001]
  by (simp add: ex_running_eq ex_bn_from_def ex_bn_toString_def new_NonceProvider_def)

text \<open>
  C8. After the lease is lost or the provider is closed, every call of \<open>getNonce\<close>
  should be rejected with the lock-expired error. A provider that was closed while its
  lease was intact rejects the call with another error, "Nonce provider closed".
\<close>

theorem getNonce_closed_counterexample:
  "p_closed (close ex_running) \<and> p_signal (close ex_running) = Some False
   \<and> getNonce (close ex_running) = (Threw ''Nonce provider closed'', close ex_running)
   \<and> fst (getNonce (close ex_running)) \<noteq> Threw ''Nonce provider lock expired''"
  by (simp add: ex_running_eq getNonce_def checkSignal_def close_def np_log_def)

text \<open>
  C8, as the code has it. After the signal of the lease is aborted or the provider is
  closed, every call of \<open>getNonce\<close> is rejected and leaves the provider, its nonce in
  memory included, as it was: with "Nonce provider lock expired" when the signal is
  aborted or unset, and with "Nonce provider closed" when the provider is closed and
  the signal is not aborted.
\<close>

theorem getNonce_after_loss_or_close:
  "p_signal s = Some True \<or> p_closed s \<Longrightarrow>
   getNonce s =
     (Threw (if p_signal s = Some False then ''Nonce provider closed''
             else ''Nonce provider lock expired''), s)"
  by (auto simp: getNonce_def checkSignal_def split: option.splits)

theorem getNonce_after_loss_or_close_witness:
  "getNonce (signal_abort ex_running)
     = (Threw ''Nonce provider lock expired'', signal_abort ex_running)
   \<and> getNonce (close ex_running) = (Threw ''Nonce provider closed'', close ex_running)"
  using getNonce_after_loss_or_close[of "signal_abort ex_running"]
        getNonce_after_loss_or_close[of "close ex_running"]
  by (simp add: ex_running_eq signal_abort_def close_def np_log_def)

text \<open>
  C10. A call of \<open>getNonce\<close> made while the signal of the lease is unset, on a provider
  that never ran or on one whose attempt to take the lock failed, throws "Nonce
  provider lock expired", returns no nonce and leaves the provider as it was.
\<close>

theorem getNonce_without_lease:
  "p_signal s = None \<Longrightarrow>
     getNonce s = (Threw ''Nonce provider lock expired'', s)
   \<and> getNonce (run_lock_failed s) = (Threw ''Nonce provider lock expired'', run_lock_failed s)"
  by (simp add: getNonce_def checkSignal_def run_lock_failed_signal)

theorem getNonce_without_lease_witness:
  "getNonce (new_NonceProvider ''1'' ''0xacc'' ''0xexch'' None 100)
     = (Threw ''Nonce provider lock expired'', new_NonceProvider ''1'' ''0xacc'' ''0xexch'' None 100)
   \<and> getNonce (run_lock_failed (new_NonceProvider ''1'' ''0xacc'' ''0xexch'' None 100))
     = (Threw ''Nonce provider lock expired'',
        run_lock_failed (new_NonceProvider ''1'' ''0xacc'' ''0xexch'' None 100))"
  using getNonce_without_lease[of "new_NonceProvider ''1'' ''0xacc'' ''0xexch'' None 100"]
  by (simp add: new_NonceProvider_def)

section \<open>The broadcaster of the network configuration\<close>

text \<open>Whatever the flags, a configuration that is returned carries the direct broadcaster.\<close>

lemma getNetworkConfig_broadcaster:
  "getNetworkConfig forking env gea relay bz chain = Inr (cfg, l) \<Longrightarrow>
   \<exists>w p. broadcaster cfg = ForkedNetworkBroadcaster chain w p"
  by (auto simp: getNetworkConfig_def Let_def split: sum.splits if_splits)

text \<open>
  C6. With forking disabled the network configuration should select the broadcaster
  that submits bundles to the private relay with block offset 2, and the direct
  broadcaster only with forking enabled. With forking disabled, on mainnet and with
  every variable of the environment set, the configuration returned has
  \<open>isFlashbotsEnabled\<close> set and the relay provider with block offset 2, and its
  broadcaster is the direct one.
\<close>

theorem getNetworkConfig_production:
  "getNetworkConfig False
     [''WEBSOCKET_PROVIDER_URL'' \<mapsto> ''wss://node.example'',
      ''HTTP_PROVIDER_URL'' \<mapsto> ''https://node.example'',
      ''INITIATOR_KEY'' \<mapsto> ''0x01'',
      ''MATCH_EXECUTOR_ADDRESS'' \<mapsto> ''0x02'',
      ''FLASHBOTS_AUTH_SIGNER_KEY'' \<mapsto> ''0x03'']
     (\<lambda>c. ''0x04'') ''https://relay.flashbots.net'' False ''1''
   = Inr (\<lparr>nc_chainId = ''1'', isForkingEnabled = False, isFlashbotsEnabled = True,
            initiator = Wallet ''0x01'',
            nc_matchExecutorAddress = ''0x02'',
            nc_exchangeAddress = ''0x04'',
            flashbots = Some \<lparr>blockOffset = 2,
               provider = FlashbotsBundleProvider (JsonRpcProvider ''https://node.example'' ''1'')
                            (Wallet ''0x03'') ''https://relay.flashbots.net''\<rparr>,
            websocketProvider = WebSocketProvider ''wss://node.example'' ''1'',
            httpProvider = JsonRpcProvider ''https://node.example'' ''1'',
            broadcaster = ForkedNetworkBroadcaster ''1'' (Wallet ''0x01'')
                            (JsonRpcProvider ''https://node.example'' ''1'')\<rparr>, [])"
  by (simp add: getNetworkConfig_def getEnvVariable_def Mainnet_def)

section \<open>The default enablement table\<close>

lemma kind_of_cases:
  "kind_of mp kd = Some k \<Longrightarrow>
     (mp = ''infinity'' \<and> map_of infinityConfig kd = Some k)
   \<or> (mp = ''seaport'' \<and> map_of seaportConfig kd = Some k)"
  by (simp add: kind_of_def marketplace_def config_def split: if_splits)

lemma infinity_kinds: "map_of infinityConfig kd = Some k \<Longrightarrow> \<not> kind_enabled k \<and> builder k = None"
  by (auto simp: infinityConfig_def split: if_splits)

lemma seaport_kinds:
  "map_of seaportConfig kd = Some k \<Longrightarrow>
   (kind_enabled k \<longleftrightarrow> kd = ''single-token'') \<and> (builder k \<noteq> None \<longleftrightarrow> kd = ''single-token'')"
  by (auto simp: seaportConfig_def split: if_splits)

lemma other_marketplaces:
  "marketplace mp = Some m \<Longrightarrow> mp \<noteq> ''seaport'' \<Longrightarrow> mp \<noteq> ''infinity'' \<Longrightarrow>
   \<not> enabled m \<and> kinds m = None"
  by (auto simp: marketplace_def config_def split: if_splits)

text \<open>
  C9. In the default table seaport with the kind single-token should be the only
  enabled pair with a builder, infinity present in full but disabled, and every other
  marketplace and kind disabled. The entry of infinity is enabled.
\<close>

theorem infinity_disabled_counterexample:
  "map_option enabled (marketplace ''infinity'') = Some True"
  by (simp add: marketplace_def config_def)

text \<open>
  C9, as the code has it. A kind of a marketplace is enabled exactly when it is
  single-token of seaport, and has a builder exactly then; the entry of infinity is
  enabled at the level of the marketplace and lists its three kinds, single-token,
  contract-wide and complex, each disabled and without builder; every marketplace of
  the table other than seaport and infinity is disabled and lists no kinds.
\<close>

theorem enablement_table:
  "(kind_of mp kd = Some k \<longrightarrow>
      (kind_enabled k \<longleftrightarrow> mp = ''seaport'' \<and> kd = ''single-token'')
    \<and> (builder k \<noteq> None \<longleftrightarrow> mp = ''seaport'' \<and> kd = ''single-token''))
   \<and> kind_of ''seaport'' ''single-token''
        = Some \<lparr>kind_enabled = True, builder = Some Seaport_Builders_SingleToken\<rparr>
   \<and> marketplace ''infinity''
        = Some \<lparr>source = ''infinity'', enabled = True, kinds = Some infinityConfig\<rparr>
   \<and> map fst infinityConfig = [''single-token'', ''contract-wide'', ''complex'']
   \<and> (marketplace mq = Some m \<longrightarrow> mq \<noteq> ''seaport'' \<longrightarrow> mq \<noteq> ''infinity'' \<longrightarrow>
        \<not> enabled m \<and> kinds m = None)"
proof -
  have a: "kind_of mp kd = Some k \<longrightarrow>
      (kind_enabled k \<longleftrightarrow> mp = ''seaport'' \<and> kd = ''single-token'')
    \<and> (builder k \<noteq> None \<longleftrightarrow> mp = ''seaport'' \<and> kd = ''single-token'')"
  proof
    assume h: "kind_of mp kd = Some k"
    from kind_of_cases[OF h]
    show "(kind_enabled k \<longleftrightarrow> mp = ''seaport'' \<and> kd = ''single-token'')
        \<and> (builder k \<noteq> None \<longleftrightarrow> mp = ''seaport'' \<and> kd = ''single-token'')"
    proof
      assume "mp = ''infinity'' \<and> map_of infinityConfig kd = Some k"
      then show ?thesis using infinity_kinds by auto
    next
      assume "mp = ''seaport'' \<and> map_of seaportConfig kd = Some k"
      then show ?thesis using seaport_kinds by auto
    qed
  qed
  have b: "kind_of ''seaport'' ''single-token''
        = Some \<lparr>kind_enabled = True, builder = Some Seaport_Builders_SingleToken\<rparr>"
    by (simp add: kind_of_def marketplace_def config_def seaportConfig_def)
  have c: "marketplace ''infinity''
        = Some \<lparr>source = ''infinity'', enabled = True, kinds = Some infinityConfig\<rparr>"
    by (simp add: marketplace_def config_def)
  have d: "map fst infinityConfig = [''single-token'', ''contract-wide'', ''complex'']"
    by (simp add: infinityConfig_def)
  show ?thesis using a b c d other_marketplaces by blast
qed

theorem enablement_table_witness:
  "kind_of ''infinity'' ''complex'' = Some \<lparr>kind_enabled = False, builder = None\<rparr>
   \<and> \<not> kind_enabled \<lparr>kind_enabled = False, builder = None\<rparr>
   \<and> marketplace ''blur'' = Some \<lparr>source = ''blur'', enabled = False, kinds = None\<rparr>
   \<and> \<not> enabled \<lparr>source = ''blur'', enabled = False, kinds = None\<rparr>"
  using enablement_table[of "''infinity''" "''complex''" "\<lparr>kind_enabled = False, builder = None\<rparr>"
      "''blur''" "\<lparr>source = ''blur'', enabled = False, kinds = None\<rparr>"]
  by (simp add: kind_of_def marketplace_def config_def infinityConfig_def)

end
